theory Spec2Isabelle
  imports Complex_Main "HOL-Library.Sublist"
begin

section \<open>Values exchanged with the pricing API\<close>

text \<open>
  The client scripts of \<^verbatim>\<open>examples/python/examples.py\<close> exchange JSON with a remote
  service through the \<^verbatim>\<open>requests\<close> library. A parsed JSON document is a Python value:
  \<^verbatim>\<open>None\<close>, a bool, a number, a \<^verbatim>\<open>str\<close>, a list or a dict. A dict is kept as an
  association list in insertion order; a lookup reads it with \<open>map_of\<close>. The number type
  is left open, since the client never computes with a number of a response body.
\<close>

datatype 'n json =
    JNull
  | JBool bool
  | JNum 'n
  | JStr string
  | JArr "'n json list"
  | JObj "(string \<times> 'n json) list"

text \<open>
  A value of a query parameter is a scalar (here: its text) or a list of scalars;
  the parameters are an ordered mapping, as a Python dict is.
\<close>

datatype qvalue = QScalar string | QList "string list"

type_synonym query = "(string \<times> qvalue) list"

text \<open>
  \<^verbatim>\<open>requests.Response\<close>, as far as the client reads it: \<^verbatim>\<open>status_code\<close>,
  \<^verbatim>\<open>reason\<close>, \<^verbatim>\<open>text\<close> and \<^verbatim>\<open>url\<close>.
\<close>

record response =
  status_code :: int
  reason :: string
  "text" :: string
  url :: string

text \<open>
  The exceptions the client meets, by the only distinction its \<^verbatim>\<open>except\<close> clauses make:
  \<^verbatim>\<open>requests.exceptions.HTTPError\<close> (with \<^verbatim>\<open>str(e)\<close> and \<^verbatim>\<open>e.response\<close>), any other
  subclass of \<^verbatim>\<open>requests.exceptions.RequestException\<close> (class name and \<^verbatim>\<open>str(e)\<close>), and
  exceptions outside that hierarchy (\<^verbatim>\<open>TypeError\<close>, \<^verbatim>\<open>KeyError\<close>, \<^verbatim>\<open>ValueError\<close>, ...).
\<close>

datatype py_exception =
    HTTPError string response
  | RequestException string string
  | OtherException string string

fun is_HTTPError :: "py_exception \<Rightarrow> bool" where
  "is_HTTPError (HTTPError m r) = True"
| "is_HTTPError (RequestException c m) = False"
| "is_HTTPError (OtherException c m) = False"

fun is_RequestException :: "py_exception \<Rightarrow> bool" where
  "is_RequestException (HTTPError m r) = True"
| "is_RequestException (RequestException c m) = True"
| "is_RequestException (OtherException c m) = False"

fun exception_str :: "py_exception \<Rightarrow> string" where
  "exception_str (HTTPError m r) = m"
| "exception_str (RequestException c m) = m"
| "exception_str (OtherException c m) = m"

section \<open>Formatting integers\<close>

text \<open>The decimal text of an integer, as an f-string prints \<^verbatim>\<open>{e.response.status_code}\<close>.\<close>

definition digit_char :: "nat \<Rightarrow> char" where
  "digit_char d = ''0123456789'' ! d"

function str_nat :: "nat \<Rightarrow> string" where
  "str_nat n = (if n < 10 then [digit_char n] else str_nat (n div 10) @ [digit_char (n mod 10)])"
  by pat_completeness auto
termination
  by (relation "measure id") auto

declare str_nat.simps [simp del]

definition str_int :: "int \<Rightarrow> string" where
  "str_int i = (if i < 0 then CHR ''-'' # str_nat (nat (- i)) else str_nat (nat i))"

section \<open>The HTTP client\<close>

text \<open>
  The keyword arguments the wrappers hand to \<^verbatim>\<open>Session.request\<close>: \<^verbatim>\<open>params\<close> and
  \<^verbatim>\<open>json\<close>, each \<^verbatim>\<open>None\<close> unless given.
\<close>

record 'n kwargs =
  kw_params :: "query option"
  kw_json :: "'n json option"

definition no_kwargs :: "'n kwargs" where
  "no_kwargs = \<lparr>kw_params = None, kw_json = None\<rparr>"

text \<open>One call of \<^verbatim>\<open>self.session.request(method, url, **kwargs)\<close>.\<close>

record 'n call =
  call_method :: string
  call_url :: string
  call_kwargs :: "'n kwargs"

text \<open>
  The network and the server are a parameter: a function from the call to what
  \<^verbatim>\<open>Session.request\<close> does with it, raising an exception or returning a response.
\<close>

type_synonym 'n network = "'n call \<Rightarrow> py_exception + response"

text \<open>
  \<^verbatim>\<open>response.json()\<close> is a parameter as well: a function from the body text to the parsed
  value or the exception the library raises.
\<close>

type_synonym 'n decoder = "string \<Rightarrow> py_exception + 'n json"

text \<open>
  What the program leaves behind: the lines it printed and the calls it made on the
  session, both in order.
\<close>

record 'n world =
  stdout :: "string list"
  sent :: "'n call list"

definition print :: "string \<Rightarrow> 'n world \<Rightarrow> 'n world" where
  "print line w = w\<lparr>stdout := stdout w @ [line]\<rparr>"

text \<open>
  \<^verbatim>\<open>Response.raise_for_status()\<close> of the \<^verbatim>\<open>requests\<close> library: the message stays
  empty unless the status is from 400 to 499 (a client error) or from 500 to 599 (a
  server error), and \<^verbatim>\<open>HTTPError(http_error_msg, response=self)\<close> is raised when the
  message is not empty. Any other status, 1xx and 3xx included, raises nothing.
\<close>

definition http_error_msg :: "response \<Rightarrow> string" where
  "http_error_msg r =
     (if 400 \<le> status_code r \<and> status_code r < 500 then
        str_int (status_code r) @ '' Client Error: '' @ reason r @ '' for url: '' @ url r
      else if 500 \<le> status_code r \<and> status_code r < 600 then
        str_int (status_code r) @ '' Server Error: '' @ reason r @ '' for url: '' @ url r
      else [])"

definition raise_for_status :: "response \<Rightarrow> py_exception option" where
  "raise_for_status r =
     (if http_error_msg r \<noteq> [] then Some (HTTPError (http_error_msg r) r) else None)"

text \<open>
  Python's \<^verbatim>\<open>'message' in error_data\<close> and \<^verbatim>\<open>error_data['message']\<close> on a parsed JSON
  value: membership is a key test on a dict, an element test on a list, a substring
  test on a string, and a \<^verbatim>\<open>TypeError\<close> on anything else; indexing by a string works
  on a dict only.
\<close>

fun py_contains :: "string \<Rightarrow> 'n json \<Rightarrow> py_exception + bool" where
  "py_contains k (JObj kvs) = Inr (map_of kvs k \<noteq> None)"
| "py_contains k (JArr xs) = Inr (JStr k \<in> set xs)"
| "py_contains k (JStr s) = Inr (sublist k s)"
| "py_contains k v = Inl (OtherException ''TypeError'' ''argument is not iterable'')"

fun py_getitem :: "'n json \<Rightarrow> string \<Rightarrow> py_exception + 'n json" where
  "py_getitem (JObj kvs) k =
     (case map_of kvs k of
        None \<Rightarrow> Inl (OtherException ''KeyError'' k)
      | Some v \<Rightarrow> Inr v)"
| "py_getitem v k = Inl (OtherException ''TypeError'' ''indices must be integers'')"

text \<open>
  \<^verbatim>\<open>str(v)\<close> as an f-string applies it: a \<^verbatim>\<open>str\<close> is printed as it is; the text of any
  other value is left to the parameter \<open>render\<close>.
\<close>

fun py_str :: "('n json \<Rightarrow> string) \<Rightarrow> 'n json \<Rightarrow> string" where
  "py_str render (JStr s) = s"
| "py_str render v = render v"

record APIClient =
  base_url :: string

text \<open>
  The inner \<^verbatim>\<open>try\<close> of the \<^verbatim>\<open>HTTPError\<close> handler: it starts from the synthesized
  message and replaces it by the \<^verbatim>\<open>message\<close> entry of the decoded body; the bare
  \<^verbatim>\<open>except: pass\<close> keeps the message it has when any step raises.
\<close>

definition error_message :: "'n decoder \<Rightarrow> response \<Rightarrow> 'n json" where
  "error_message loads r =
     (let error_msg = JStr (''HTTP '' @ str_int (status_code r) @ '': '' @ reason r) in
      case loads (text r) of
        Inl ex \<Rightarrow> error_msg
      | Inr error_data \<Rightarrow>
          (case py_contains ''message'' error_data of
             Inl ex \<Rightarrow> error_msg
           | Inr False \<Rightarrow> error_msg
           | Inr True \<Rightarrow>
               (case py_getitem error_data ''message'' of
                  Inl ex \<Rightarrow> error_msg
                | Inr v \<Rightarrow> v)))"

text \<open>The body of the outer \<^verbatim>\<open>try\<close>, given what \<^verbatim>\<open>Session.request\<close> did.\<close>

definition try_body :: "'n decoder \<Rightarrow> py_exception + response \<Rightarrow> py_exception + 'n json" where
  "try_body loads outcome =
     (case outcome of
        Inl ex \<Rightarrow> Inl ex
      | Inr r \<Rightarrow>
          (case raise_for_status r of
             Some ex \<Rightarrow> Inl ex
           | None \<Rightarrow> if text r \<noteq> [] then loads (text r) else Inr (JObj [])))"

text \<open>
  \<^verbatim>\<open>APIClient.request\<close>. The first handler takes an \<^verbatim>\<open>HTTPError\<close>, the second any
  other \<^verbatim>\<open>RequestException\<close>; both print and re-raise the exception they caught. An
  exception of another class leaves the function as it is.
\<close>

definition request ::
  "'n decoder \<Rightarrow> ('n json \<Rightarrow> string) \<Rightarrow> 'n network \<Rightarrow> APIClient \<Rightarrow> string \<Rightarrow> string \<Rightarrow> 'n kwargs
     \<Rightarrow> 'n world \<Rightarrow> (py_exception + 'n json) \<times> 'n world" where
  "request loads render net self method endpoint kwargs w =
     (let url = base_url self @ endpoint;
          c = \<lparr>call_method = method, call_url = url, call_kwargs = kwargs\<rparr>;
          w1 = w\<lparr>sent := sent w @ [c]\<rparr>
      in case try_body loads (net c) of
           Inr v \<Rightarrow> (Inr v, w1)
         | Inl (HTTPError m r) \<Rightarrow>
             (let error_msg = error_message loads r in
              (Inl (HTTPError m r),
               print (''API Request failed for '' @ endpoint @ '': '' @ py_str render error_msg) w1))
         | Inl (RequestException cls m) \<Rightarrow>
             (Inl (RequestException cls m),
              print (''API Request failed for '' @ endpoint @ '': '' @ m) w1)
         | Inl (OtherException cls m) \<Rightarrow> (Inl (OtherException cls m), w1))"

definition get ::
  "'n decoder \<Rightarrow> ('n json \<Rightarrow> string) \<Rightarrow> 'n network \<Rightarrow> APIClient \<Rightarrow> string \<Rightarrow> query option
     \<Rightarrow> 'n world \<Rightarrow> (py_exception + 'n json) \<times> 'n world" where
  "get loads render net self endpoint params =
     request loads render net self ''GET'' endpoint \<lparr>kw_params = params, kw_json = None\<rparr>"

definition post ::
  "'n decoder \<Rightarrow> ('n json \<Rightarrow> string) \<Rightarrow> 'n network \<Rightarrow> APIClient \<Rightarrow> string \<Rightarrow> 'n json option
     \<Rightarrow> 'n world \<Rightarrow> (py_exception + 'n json) \<times> 'n world" where
  "post loads render net self endpoint data =
     request loads render net self ''POST'' endpoint \<lparr>kw_params = None, kw_json = data\<rparr>"

definition put ::
  "'n decoder \<Rightarrow> ('n json \<Rightarrow> string) \<Rightarrow> 'n network \<Rightarrow> APIClient \<Rightarrow> string \<Rightarrow> 'n json option
     \<Rightarrow> 'n world \<Rightarrow> (py_exception + 'n json) \<times> 'n world" where
  "put loads render net self endpoint data =
     request loads render net self ''PUT'' endpoint \<lparr>kw_params = None, kw_json = data\<rparr>"

definition delete ::
  "'n decoder \<Rightarrow> ('n json \<Rightarrow> string) \<Rightarrow> 'n network \<Rightarrow> APIClient \<Rightarrow> string
     \<Rightarrow> 'n world \<Rightarrow> (py_exception + 'n json) \<times> 'n world" where
  "delete loads render net self endpoint =
     request loads render net self ''DELETE'' endpoint no_kwargs"

text \<open>
  The message a handler of \<^verbatim>\<open>request\<close> prints for the exception it caught: the first
  handler prints \<^verbatim>\<open>error_msg\<close>, the second \<^verbatim>\<open>str(e)\<close>.
\<close>

definition logged_message :: "'n decoder \<Rightarrow> ('n json \<Rightarrow> string) \<Rightarrow> py_exception \<Rightarrow> string" where
  "logged_message loads render ex =
     (case ex of
        HTTPError m r \<Rightarrow> py_str render (error_message loads r)
      | RequestException cls m \<Rightarrow> m
      | OtherException cls m \<Rightarrow> m)"

text \<open>The exception a call leaves with, if it raises.\<close>

definition signaled :: "(py_exception + 'a) \<times> 'w \<Rightarrow> py_exception option" where
  "signaled res = (case fst res of Inl ex \<Rightarrow> Some ex | Inr v \<Rightarrow> None)"

text \<open>
  A decoded body has a \<^verbatim>\<open>message\<close> field when it is an object with that key.
\<close>

fun has_message :: "'n json \<Rightarrow> bool" where
  "has_message (JObj kvs) = (map_of kvs ''message'' \<noteq> None)"
| "has_message v = False"

subsection \<open>Sample servers and inputs\<close>

text \<open>A world in which nothing was printed or sent yet.\<close>

definition fresh :: "unit world" where
  "fresh = \<lparr>stdout = [], sent = []\<rparr>"

text \<open>A client for a test host.\<close>

definition demo_client :: APIClient where
  "demo_client = \<lparr>base_url = ''https://example.test/api''\<rparr>"

text \<open>The body of a typical error response.\<close>

definition not_found_body :: string where
  \<open>not_found_body = ''{"message": "Not found"}''\<close>

text \<open>
  A decoder that knows two bodies and fails on every other text with the exception
  \<^verbatim>\<open>requests.exceptions.JSONDecodeError\<close>, a \<^verbatim>\<open>RequestException\<close> since requests 2.27.
\<close>

definition demo_loads :: "unit decoder" where
  "demo_loads t =
     (if t = not_found_body then Inr (JObj [(''message'', JStr ''Not found'')])
      else if t = ''[1]'' then Inr (JArr [JNum ()])
      else Inl (RequestException ''JSONDecodeError'' ''Expecting value: line 1 column 1 (char 0)''))"

text \<open>A stand-in for the text of a value that is not a \<^verbatim>\<open>str\<close>.\<close>

definition demo_render :: "unit json \<Rightarrow> string" where
  "demo_render v = ''<value>''"

text \<open>A server that answers every call with one status, reason phrase and body.\<close>

definition respond :: "int \<Rightarrow> string \<Rightarrow> string \<Rightarrow> unit network" where
  "respond code phrase body c =
     Inr \<lparr>status_code = code, reason = phrase, text = body, url = call_url c\<rparr>"

text \<open>A network on which every connection is refused.\<close>

definition refuse :: "unit network" where
  "refuse c = Inl (RequestException ''ConnectionError'' ''Connection refused'')"

section \<open>The price calculation\<close>





















subsection \<open>The calculation in the words of its description\<close>




section \<open>The query string\<close>

text \<open>
  The source hands the \<^verbatim>\<open>params\<close> mapping to \<^verbatim>\<open>Session.request\<close> and never builds or
  reads a query string itself. The definitions of this section describe that part of
  the HTTP layer after its specification: query parameters are URL-encoded, and a
  list-valued entry is serialized as repeated keys. Strings are byte strings, as a
  \<^verbatim>\<open>str\<close> is after its UTF-8 encoding.
\<close>

text \<open>
  Modelled from the spec: the characters that URL-encoding leaves as they are (letters,
  digits and \<^verbatim>\<open>_.-~\<close>); the encoder of the query string is missing from the source.
\<close>

definition unreserved :: "char \<Rightarrow> bool" where
  "unreserved c =
     (c \<in> set ''ABCDEFGHIJKLMNOPQRSTUVWXYZabcdefghijklmnopqrstuvwxyz0123456789_.-~'')"

text \<open>
  Modelled from the spec: the upper-case hexadecimal digit used in a percent escape of
  the missing URL-encoder.
\<close>

definition hex_digit :: "nat \<Rightarrow> char" where
  "hex_digit d = ''0123456789ABCDEF'' ! d"

text \<open>
  Modelled from the spec: the URL-encoding of one byte by the missing encoder, a space
  as \<^verbatim>\<open>+\<close> and every other reserved byte as \<^verbatim>\<open>%XX\<close>.
\<close>

definition quote_char :: "char \<Rightarrow> string" where
  "quote_char c =
     (if unreserved c then [c]
      else if c = CHR '' '' then ''+''
      else [CHR ''%'', hex_digit (of_char c div 16), hex_digit (of_char c mod 16)])"

text \<open>
  Modelled from the spec: the URL-encoding of a key or a value (missing from the source).
\<close>

definition quote_plus :: "string \<Rightarrow> string" where
  "quote_plus s = concat (map quote_char s)"

text \<open>
  Modelled from the spec: the values of an entry of the mapping, one for a scalar and
  the elements for a list (the serializer is missing from the source).
\<close>

fun values_of :: "qvalue \<Rightarrow> string list" where
  "values_of (QScalar v) = [v]"
| "values_of (QList vs) = vs"

text \<open>
  Modelled from the spec: the key-value pairs of a mapping in order, a list-valued
  entry giving one pair per element under the same key (repeated keys); the
  serializer is missing from the source.
\<close>

definition to_pairs :: "query \<Rightarrow> (string \<times> string) list" where
  "to_pairs q = concat (map (\<lambda>(k, v). map (Pair k) (values_of v)) q)"

text \<open>
  Modelled from the spec: joining the encoded pairs with a separator (part of the
  missing serializer).
\<close>

fun join :: "string \<Rightarrow> string list \<Rightarrow> string" where
  "join sep [] = []"
| "join sep [x] = x"
| "join sep (x # y # zs) = x @ sep @ join sep (y # zs)"

text \<open>
  Modelled from the spec: the query string of a list of pairs, \<^verbatim>\<open>key=value\<close> joined by
  \<^verbatim>\<open>&\<close> with keys and values URL-encoded (missing from the source).
\<close>

definition urlencode :: "(string \<times> string) list \<Rightarrow> string" where
  "urlencode ps = join ''&'' (map (\<lambda>(k, v). quote_plus k @ ''='' @ quote_plus v) ps)"

text \<open>
  Modelled from the spec: the query string of a parameter mapping (missing from the
  source).
\<close>

definition encode_params :: "query \<Rightarrow> string" where
  "encode_params q = urlencode (to_pairs q)"

text \<open>
  Modelled from the spec: the URL built for a request, the given URL followed by
  \<^verbatim>\<open>?\<close> and the query string when there is one (missing from the source).
\<close>

definition prepare_url :: "string \<Rightarrow> query option \<Rightarrow> string" where
  "prepare_url u params =
     (case params of
        None \<Rightarrow> u
      | Some q \<Rightarrow> if encode_params q = [] then u else u @ ''?'' @ encode_params q)"

text \<open>
  Modelled from the spec: the URL built for a call made on the session, from its URL
  and its \<^verbatim>\<open>params\<close> (the builder is missing from the source).
\<close>

definition built_url :: "'n call \<Rightarrow> string" where
  "built_url c = prepare_url (call_url c) (kw_params (call_kwargs c))"

text \<open>
  Modelled from the spec: the value of a hexadecimal digit, for the decoding of the
  built URL (the decoder is missing from the source).
\<close>

definition hex_value :: "char \<Rightarrow> nat option" where
  "hex_value c =
     map_of (zip ''0123456789ABCDEF'' [0..<16] @ zip ''abcdef'' [10..<16]) c"

text \<open>
  Modelled from the spec: URL-decoding, the inverse of the encoding: \<^verbatim>\<open>+\<close> is a space
  and \<^verbatim>\<open>%XX\<close> the byte with that code; a \<^verbatim>\<open>%\<close> not followed by two hexadecimal digits
  stays (the decoder is missing from the source).
\<close>

fun unquote_plus :: "string \<Rightarrow> string" where
  "unquote_plus [] = []"
| "unquote_plus (c # r) =
     (if c = CHR ''+'' then CHR '' '' # unquote_plus r
      else if c = CHR ''%'' then
        (case r of
           a # b # r' \<Rightarrow>
             (case (hex_value a, hex_value b) of
                (Some x, Some y) \<Rightarrow> char_of (16 * x + y) # unquote_plus r'
              | _ \<Rightarrow> c # unquote_plus r)
         | _ \<Rightarrow> c # unquote_plus r)
      else c # unquote_plus r)"

text \<open>
  Modelled from the spec: splitting a text at every occurrence of a separator (part of
  the missing decoder).
\<close>

fun split_on :: "char \<Rightarrow> string \<Rightarrow> string list" where
  "split_on c [] = [[]]"
| "split_on c (x # xs) =
     (if x = c then [] # split_on c xs
      else (case split_on c xs of
              [] \<Rightarrow> [[x]]
            | p # ps \<Rightarrow> (x # p) # ps))"

text \<open>
  Modelled from the spec: splitting a text at the first occurrence of a separator, if
  there is one (part of the missing decoder).
\<close>

fun split_first :: "char \<Rightarrow> string \<Rightarrow> (string \<times> string) option" where
  "split_first c [] = None"
| "split_first c (x # xs) =
     (if x = c then Some ([], xs)
      else map_option (\<lambda>(a, b). (x # a, b)) (split_first c xs))"

text \<open>
  Modelled from the spec: decoding one \<^verbatim>\<open>key=value\<close> piece of a query string; an empty
  piece gives nothing and a blank value is kept (part of the missing decoder).
\<close>

definition parse_pair :: "string \<Rightarrow> (string \<times> string) list" where
  "parse_pair name_value =
     (if name_value = [] then []
      else (case split_first CHR ''='' name_value of
              None \<Rightarrow> [(unquote_plus name_value, [])]
            | Some (name, v) \<Rightarrow> [(unquote_plus name, unquote_plus v)]))"

text \<open>
  Modelled from the spec: decoding a query string into its key-value pairs in order
  (the decoder is missing from the source).
\<close>

definition parse_qsl :: "string \<Rightarrow> (string \<times> string) list" where
  "parse_qsl qs = concat (map parse_pair (split_on CHR ''&'' qs))"

text \<open>
  Modelled from the spec: adding a value to the list of its key, a new key going to
  the end (part of the missing decoder).
\<close>

fun add_value :: "string \<Rightarrow> string \<Rightarrow> (string \<times> string list) list \<Rightarrow> (string \<times> string list) list" where
  "add_value name v [] = [(name, [v])]"
| "add_value name v ((k, vs) # rest) =
     (if k = name then (k, vs @ [v]) # rest else (k, vs) # add_value name v rest)"

text \<open>
  Modelled from the spec: decoding a query string into a mapping from each key to the
  list of its values, in order of first occurrence (the decoder is missing from the
  source).
\<close>

definition parse_qs :: "string \<Rightarrow> (string \<times> string list) list" where
  "parse_qs qs = foldl (\<lambda>parsed (name, v). add_value name v parsed) [] (parse_qsl qs)"

text \<open>
  Modelled from the spec: the query string of a URL, the text after the first \<^verbatim>\<open>?\<close>
  (part of the missing decoder).
\<close>

definition query_of :: "string \<Rightarrow> string" where
  "query_of u = (case split_first CHR ''?'' u of None \<Rightarrow> [] | Some (a, b) \<Rightarrow> b)"

text \<open>
  A parameter mapping read as a mapping to lists: a scalar is a list of one element,
  and an entry with an empty list is left out.
\<close>

definition as_lists :: "query \<Rightarrow> (string \<times> string list) list" where
  "as_lists q = map (\<lambda>(k, v). (k, values_of v)) (filter (\<lambda>(k, v). values_of v \<noteq> []) q)"

text \<open>
  The parameters of the search with several categories in
  \<^verbatim>\<open>product_search_examples\<close>: \<^verbatim>\<open>search_products('', category=['T-Shirts', 'Polos'],
  sort='price_asc', limit=10)\<close>.
\<close>

definition multi_category :: query where
  "multi_category =
     [(''q'', QScalar []), (''category'', QList [''T-Shirts'', ''Polos'']),
      (''sort'', QScalar ''price_asc''), (''limit'', QScalar ''10'')]"

section \<open>Properties of the HTTP client\<close>

lemma http_error_msg_nonempty:
  "400 \<le> status_code r \<Longrightarrow> status_code r < 600 \<Longrightarrow> http_error_msg r \<noteq> []"
  by (simp add: http_error_msg_def)

lemma http_error_msg_empty:
  "status_code r < 400 \<or> 600 \<le> status_code r \<Longrightarrow> http_error_msg r = []"
  by (auto simp add: http_error_msg_def)

lemma try_body_error_status:
  "400 \<le> status_code r \<Longrightarrow> status_code r < 600 \<Longrightarrow>
   try_body loads (Inr r) = Inl (HTTPError (http_error_msg r) r)"
  by (simp add: try_body_def raise_for_status_def http_error_msg_nonempty)

lemma try_body_ok_status:
  "status_code r < 400 \<or> 600 \<le> status_code r \<Longrightarrow>
   try_body loads (Inr r) = (if text r \<noteq> [] then loads (text r) else Inr (JObj []))"
  by (simp add: try_body_def raise_for_status_def http_error_msg_empty)

lemma request_cases:
  "request loads render net self method endpoint kwargs w =
     (let c = \<lparr>call_method = method, call_url = base_url self @ endpoint, call_kwargs = kwargs\<rparr>;
          w1 = w\<lparr>sent := sent w @ [c]\<rparr>
      in case try_body loads (net c) of
           Inr v \<Rightarrow> (Inr v, w1)
         | Inl ex \<Rightarrow>
             (Inl ex,
              if is_RequestException ex
              then print (''API Request failed for '' @ endpoint @ '': '' @ logged_message loads render ex) w1
              else w1))"
  by (simp add: request_def Let_def logged_message_def split: sum.splits py_exception.splits)

lemma error_message_with_field:
  "loads (text r) = Inr (JObj kvs) \<Longrightarrow> map_of kvs ''message'' = Some v \<Longrightarrow>
   error_message loads r = v"
  by (simp add: error_message_def)

lemma error_message_without_field:
  "(case loads (text r) of Inl ex \<Rightarrow> True | Inr d \<Rightarrow> \<not> has_message d) \<Longrightarrow>
   error_message loads r = JStr (''HTTP '' @ str_int (status_code r) @ '': '' @ reason r)"
  apply (simp add: error_message_def Let_def split: sum.splits bool.splits)
  apply (intro allI impI conjI)
  subgoal for d by (cases d) auto
  done

lemma sent_request:
  "sent (snd (request loads render net self method endpoint kwargs w)) =
   sent w @ [\<lparr>call_method = method, call_url = base_url self @ endpoint, call_kwargs = kwargs\<rparr>]"
  by (simp add: request_cases Let_def print_def split: sum.splits)

text \<open>
  Claim C1, as amended. When the server answers with a status from 400 to 599 and the
  body decodes to an object with a \<^verbatim>\<open>message\<close> field, \<^verbatim>\<open>request\<close> prints the line
  \<^verbatim>\<open>API Request failed for {endpoint}: {message}\<close> with that field's value and then
  re-raises the \<^verbatim>\<open>HTTPError\<close> that \<^verbatim>\<open>raise_for_status\<close> raised: the error carries the
  response, hence its status code, and the library's own message. Exactly one call was
  made on the session.
\<close>

theorem request_http_error_with_message_field:
  assumes "net \<lparr>call_method = method, call_url = base_url self @ endpoint, call_kwargs = kwargs\<rparr> = Inr r"
    and "400 \<le> status_code r" and "status_code r < 600"
    and "loads (text r) = Inr (JObj kvs)" and "map_of kvs ''message'' = Some v"
  shows "request loads render net self method endpoint kwargs w =
     (Inl (HTTPError (http_error_msg r) r),
      print (''API Request failed for '' @ endpoint @ '': '' @ py_str render v)
        (w\<lparr>sent := sent w @ [\<lparr>call_method = method, call_url = base_url self @ endpoint, call_kwargs = kwargs\<rparr>]\<rparr>))"
  using assms
  by (simp add: request_cases try_body_error_status logged_message_def error_message_with_field)

text \<open>
  Claim C1, witness: a 404 answer with the body \<^verbatim>\<open>{"message": "Not found"}\<close>.
\<close>

theorem request_http_error_with_message_field_witness:
  "request demo_loads demo_render (respond 404 ''Not Found'' not_found_body) demo_client
      ''GET'' ''/products/9'' no_kwargs fresh =
   (Inl (HTTPError ''404 Client Error: Not Found for url: https://example.test/api/products/9''
          \<lparr>status_code = 404, reason = ''Not Found'', text = not_found_body,
             url = ''https://example.test/api/products/9''\<rparr>),
    \<lparr>stdout = [''API Request failed for /products/9: Not found''],
       sent = [\<lparr>call_method = ''GET'', call_url = ''https://example.test/api/products/9'',
                  call_kwargs = no_kwargs\<rparr>]\<rparr>)"
  using request_http_error_with_message_field [of "respond 404 ''Not Found'' not_found_body" "''GET''" demo_client
      "''/products/9''" no_kwargs
      "\<lparr>status_code = 404, reason = ''Not Found'', text = not_found_body,
             url = ''https://example.test/api/products/9''\<rparr>"
      demo_loads "[(''message'', JStr ''Not found'')]" "JStr ''Not found''" demo_render fresh]
  by (simp add: respond_def demo_client_def demo_loads_def http_error_msg_def str_int_def
      str_nat.simps digit_char_def print_def fresh_def)

text \<open>
  Claim C1, as stated, fails: for the 404 answer with body \<^verbatim>\<open>{"message": "Not found"}\<close>
  the error that reaches the caller has the message
  \<^verbatim>\<open>404 Client Error: Not Found for url: ...\<close> of the library, not \<^verbatim>\<open>Not found\<close>; the
  field's value is only printed.
\<close>

theorem request_404_signals_library_message:
  "signaled (request demo_loads demo_render (respond 404 ''Not Found'' not_found_body) demo_client
      ''GET'' ''/products/9'' no_kwargs fresh) =
   Some (HTTPError ''404 Client Error: Not Found for url: https://example.test/api/products/9''
          \<lparr>status_code = 404, reason = ''Not Found'', text = not_found_body,
             url = ''https://example.test/api/products/9''\<rparr>)
   \<and> map_option exception_str (signaled (request demo_loads demo_render
        (respond 404 ''Not Found'' not_found_body) demo_client
        ''GET'' ''/products/9'' no_kwargs fresh)) \<noteq> Some ''Not found''"
  by (simp add: signaled_def request_cases respond_def demo_client_def try_body_error_status
      http_error_msg_def str_int_def str_nat.simps digit_char_def)

text \<open>
  Claim C2, as amended. When the server answers with a status from 400 to 599 and the
  body does not decode, or decodes to a value without a \<^verbatim>\<open>message\<close> field, the printed
  line carries the synthesized message \<^verbatim>\<open>HTTP {status}: {reason}\<close>, and the error
  re-raised is the \<^verbatim>\<open>HTTPError\<close> of \<^verbatim>\<open>raise_for_status\<close>: no exception of the
  extraction of the message escapes.
\<close>

theorem request_http_error_without_message_field:
  assumes "net \<lparr>call_method = method, call_url = base_url self @ endpoint, call_kwargs = kwargs\<rparr> = Inr r"
    and "400 \<le> status_code r" and "status_code r < 600"
    and "case loads (text r) of Inl ex \<Rightarrow> True | Inr d \<Rightarrow> \<not> has_message d"
  shows "request loads render net self method endpoint kwargs w =
     (Inl (HTTPError (http_error_msg r) r),
      print (''API Request failed for '' @ endpoint @ '': ''
               @ ''HTTP '' @ str_int (status_code r) @ '': '' @ reason r)
        (w\<lparr>sent := sent w @ [\<lparr>call_method = method, call_url = base_url self @ endpoint, call_kwargs = kwargs\<rparr>]\<rparr>))"
  using assms
  by (simp add: request_cases try_body_error_status logged_message_def error_message_without_field)

text \<open>
  Claim C2, witness: a 500 answer with an empty body.
\<close>

theorem request_http_error_without_message_field_witness:
  "request demo_loads demo_render (respond 500 ''Internal Server Error'' []) demo_client
      ''POST'' ''/cart-items'' no_kwargs fresh =
   (Inl (HTTPError ''500 Server Error: Internal Server Error for url: https://example.test/api/cart-items''
          \<lparr>status_code = 500, reason = ''Internal Server Error'', text = [],
             url = ''https://example.test/api/cart-items''\<rparr>),
    \<lparr>stdout = [''API Request failed for /cart-items: HTTP 500: Internal Server Error''],
       sent = [\<lparr>call_method = ''POST'', call_url = ''https://example.test/api/cart-items'',
                  call_kwargs = no_kwargs\<rparr>]\<rparr>)"
  using request_http_error_without_message_field [of "respond 500 ''Internal Server Error'' []" "''POST''"
      demo_client "''/cart-items''" no_kwargs
      "\<lparr>status_code = 500, reason = ''Internal Server Error'', text = [],
             url = ''https://example.test/api/cart-items''\<rparr>"
      demo_loads demo_render fresh]
  by (simp add: respond_def demo_client_def demo_loads_def not_found_body_def http_error_msg_def
      str_int_def str_nat.simps digit_char_def print_def fresh_def)

text \<open>
  Claim C2, as stated, fails: for the 500 answer with an empty body the error that
  reaches the caller has the message \<^verbatim>\<open>500 Server Error: Internal Server Error for url: ...\<close>,
  not the synthesized \<^verbatim>\<open>HTTP 500: Internal Server Error\<close>, which is only printed.
\<close>

theorem request_500_signals_library_message:
  "map_option exception_str (signaled (request demo_loads demo_render
        (respond 500 ''Internal Server Error'' []) demo_client
        ''POST'' ''/cart-items'' no_kwargs fresh)) =
   Some ''500 Server Error: Internal Server Error for url: https://example.test/api/cart-items''
   \<and> map_option exception_str (signaled (request demo_loads demo_render
        (respond 500 ''Internal Server Error'' []) demo_client
        ''POST'' ''/cart-items'' no_kwargs fresh)) \<noteq> Some ''HTTP 500: Internal Server Error''"
  by (simp add: signaled_def request_cases respond_def demo_client_def try_body_error_status
      http_error_msg_def str_int_def str_nat.simps digit_char_def)

text \<open>
  Claim C3. When the server answers with a 2xx status and a body that is not empty and
  decodes to a value, \<^verbatim>\<open>request\<close> returns exactly that value; nothing is printed.
\<close>

theorem request_success_returns_parsed_body:
  assumes "net \<lparr>call_method = method, call_url = base_url self @ endpoint, call_kwargs = kwargs\<rparr> = Inr r"
    and "200 \<le> status_code r" and "status_code r < 300"
    and "text r \<noteq> []" and "loads (text r) = Inr v"
  shows "request loads render net self method endpoint kwargs w =
     (Inr v,
      w\<lparr>sent := sent w @ [\<lparr>call_method = method, call_url = base_url self @ endpoint, call_kwargs = kwargs\<rparr>]\<rparr>)"
  using assms by (simp add: request_cases try_body_ok_status)

text \<open>
  Claim C3, witness: a 200 answer with the body \<^verbatim>\<open>[1]\<close>.
\<close>

theorem request_success_returns_parsed_body_witness:
  "request demo_loads demo_render (respond 200 ''OK'' ''[1]'') demo_client
      ''GET'' ''/inventory'' no_kwargs fresh =
   (Inr (JArr [JNum ()]),
    \<lparr>stdout = [],
       sent = [\<lparr>call_method = ''GET'', call_url = ''https://example.test/api/inventory'',
                  call_kwargs = no_kwargs\<rparr>]\<rparr>)"
  using request_success_returns_parsed_body [of "respond 200 ''OK'' ''[1]''" "''GET''" demo_client
      "''/inventory''" no_kwargs
      "\<lparr>status_code = 200, reason = ''OK'', text = ''[1]'',
             url = ''https://example.test/api/inventory''\<rparr>"
      demo_loads "JArr [JNum ()]" demo_render fresh]
  by (simp add: respond_def demo_client_def demo_loads_def not_found_body_def fresh_def)

text \<open>
  Claim C4. When the server answers with a 2xx status and an empty body, \<^verbatim>\<open>request\<close>
  returns the empty object \<^verbatim>\<open>{}\<close>, whatever the decoder would do with the empty text.
\<close>

theorem request_success_empty_body_returns_empty_object:
  assumes "net \<lparr>call_method = method, call_url = base_url self @ endpoint, call_kwargs = kwargs\<rparr> = Inr r"
    and "200 \<le> status_code r" and "status_code r < 300"
    and "text r = []"
  shows "request loads render net self method endpoint kwargs w =
     (Inr (JObj []),
      w\<lparr>sent := sent w @ [\<lparr>call_method = method, call_url = base_url self @ endpoint, call_kwargs = kwargs\<rparr>]\<rparr>)"
  using assms by (simp add: request_cases try_body_ok_status)

text \<open>
  Claim C4, witness: a 204 answer with no body.
\<close>

theorem request_success_empty_body_returns_empty_object_witness:
  "request demo_loads demo_render (respond 204 ''No Content'' []) demo_client
      ''DELETE'' ''/cart-items/7'' no_kwargs fresh =
   (Inr (JObj []),
    \<lparr>stdout = [],
       sent = [\<lparr>call_method = ''DELETE'', call_url = ''https://example.test/api/cart-items/7'',
                  call_kwargs = no_kwargs\<rparr>]\<rparr>)"
  using request_success_empty_body_returns_empty_object [of "respond 204 ''No Content'' []" "''DELETE''"
      demo_client "''/cart-items/7''" no_kwargs
      "\<lparr>status_code = 204, reason = ''No Content'', text = [],
             url = ''https://example.test/api/cart-items/7''\<rparr>"
      demo_loads demo_render fresh]
  by (simp add: respond_def demo_client_def fresh_def)

text \<open>
  Claim C5. When \<^verbatim>\<open>Session.request\<close> raises an exception that carries no response,
  \<^verbatim>\<open>request\<close> re-raises that very exception. The right-hand side does not mention the
  decoder, so no body is parsed, and the session was called exactly once, so nothing is
  retried. The exception is printed when it is a \<^verbatim>\<open>RequestException\<close>.
\<close>

theorem request_transport_failure_propagates:
  assumes "net \<lparr>call_method = method, call_url = base_url self @ endpoint, call_kwargs = kwargs\<rparr> = Inl ex"
    and "\<not> is_HTTPError ex"
  shows "request loads render net self method endpoint kwargs w =
     (Inl ex,
      if is_RequestException ex
      then print (''API Request failed for '' @ endpoint @ '': '' @ exception_str ex)
             (w\<lparr>sent := sent w @ [\<lparr>call_method = method, call_url = base_url self @ endpoint, call_kwargs = kwargs\<rparr>]\<rparr>)
      else w\<lparr>sent := sent w @ [\<lparr>call_method = method, call_url = base_url self @ endpoint, call_kwargs = kwargs\<rparr>]\<rparr>)"
  using assms by (cases ex) (simp_all add: request_cases try_body_def logged_message_def)

text \<open>
  Claim C5, witness: a refused connection.
\<close>

theorem request_transport_failure_propagates_witness:
  "request demo_loads demo_render refuse demo_client ''GET'' ''/inventory'' no_kwargs fresh =
   (Inl (RequestException ''ConnectionError'' ''Connection refused''),
    \<lparr>stdout = [''API Request failed for /inventory: Connection refused''],
       sent = [\<lparr>call_method = ''GET'', call_url = ''https://example.test/api/inventory'',
                  call_kwargs = no_kwargs\<rparr>]\<rparr>)"
  using request_transport_failure_propagates [of refuse "''GET''" demo_client "''/inventory''" no_kwargs
      "RequestException ''ConnectionError'' ''Connection refused''" demo_loads demo_render fresh]
  by (simp add: refuse_def demo_client_def fresh_def print_def)

text \<open>
  Claim C6, as amended. When \<^verbatim>\<open>Session.request\<close> raises a \<^verbatim>\<open>RequestException\<close> other
  than an \<^verbatim>\<open>HTTPError\<close> (a transport failure), or the server answers with a status from
  400 to 599, \<^verbatim>\<open>request\<close> prints a line with the endpoint and the error message and
  raises the exception: it returns no value.
\<close>

theorem request_failure_logged_then_propagated:
  assumes "(net \<lparr>call_method = method, call_url = base_url self @ endpoint, call_kwargs = kwargs\<rparr> = Inl ex
              \<and> is_RequestException ex \<and> \<not> is_HTTPError ex)
         \<or> (net \<lparr>call_method = method, call_url = base_url self @ endpoint, call_kwargs = kwargs\<rparr> = Inr r
              \<and> 400 \<le> status_code r \<and> status_code r < 600 \<and> ex = HTTPError (http_error_msg r) r)"
  shows "request loads render net self method endpoint kwargs w =
     (Inl ex,
      print (''API Request failed for '' @ endpoint @ '': '' @ logged_message loads render ex)
        (w\<lparr>sent := sent w @ [\<lparr>call_method = method, call_url = base_url self @ endpoint, call_kwargs = kwargs\<rparr>]\<rparr>))"
  using assms by (auto simp add: request_cases try_body_error_status) (simp add: try_body_def)

text \<open>
  Claim C6, witness: a 503 answer whose body is not JSON.
\<close>

theorem request_failure_logged_then_propagated_witness:
  "request demo_loads demo_render (respond 503 ''Service Unavailable'' ''busy'') demo_client
      ''PUT'' ''/artrequests/3'' no_kwargs fresh =
   (Inl (HTTPError ''503 Server Error: Service Unavailable for url: https://example.test/api/artrequests/3''
          \<lparr>status_code = 503, reason = ''Service Unavailable'', text = ''busy'',
             url = ''https://example.test/api/artrequests/3''\<rparr>),
    \<lparr>stdout = [''API Request failed for /artrequests/3: HTTP 503: Service Unavailable''],
       sent = [\<lparr>call_method = ''PUT'', call_url = ''https://example.test/api/artrequests/3'',
                  call_kwargs = no_kwargs\<rparr>]\<rparr>)"
  using request_failure_logged_then_propagated [of "respond 503 ''Service Unavailable'' ''busy''" "''PUT''"
      demo_client "''/artrequests/3''" no_kwargs
      "HTTPError ''503 Server Error: Service Unavailable for url: https://example.test/api/artrequests/3''
          \<lparr>status_code = 503, reason = ''Service Unavailable'', text = ''busy'',
             url = ''https://example.test/api/artrequests/3''\<rparr>"
      "\<lparr>status_code = 503, reason = ''Service Unavailable'', text = ''busy'',
             url = ''https://example.test/api/artrequests/3''\<rparr>"
      demo_loads demo_render fresh]
  by (simp add: respond_def demo_client_def demo_loads_def not_found_body_def http_error_msg_def
      str_int_def str_nat.simps digit_char_def print_def fresh_def logged_message_def
      error_message_def)

text \<open>
  Claim C6, as stated, fails for a status that is neither 2xx nor an error for
  \<^verbatim>\<open>raise_for_status\<close>: on a 304 answer with an empty body \<^verbatim>\<open>request\<close> prints nothing
  and returns \<^verbatim>\<open>{}\<close>.
\<close>

theorem request_304_returns_without_logging:
  "request demo_loads demo_render (respond 304 ''Not Modified'' []) demo_client
      ''GET'' ''/inventory'' no_kwargs fresh =
   (Inr (JObj []),
    \<lparr>stdout = [],
       sent = [\<lparr>call_method = ''GET'', call_url = ''https://example.test/api/inventory'',
                  call_kwargs = no_kwargs\<rparr>]\<rparr>)"
  by (simp add: request_cases respond_def demo_client_def try_body_ok_status fresh_def)

text \<open>
  Claim C7, as amended. When the server answers with a 2xx status and a body that is
  not empty and fails to decode, the exception of \<^verbatim>\<open>response.json()\<close> leaves \<^verbatim>\<open>request\<close>
  unchanged: it is not turned into an \<^verbatim>\<open>HTTPError\<close> and keeps its own message. It is
  printed with the endpoint exactly when it is a \<^verbatim>\<open>RequestException\<close>.
\<close>

theorem request_decode_failure_propagates:
  assumes "net \<lparr>call_method = method, call_url = base_url self @ endpoint, call_kwargs = kwargs\<rparr> = Inr r"
    and "200 \<le> status_code r" and "status_code r < 300"
    and "text r \<noteq> []" and "loads (text r) = Inl ex" and "\<not> is_HTTPError ex"
  shows "request loads render net self method endpoint kwargs w =
     (Inl ex,
      if is_RequestException ex
      then print (''API Request failed for '' @ endpoint @ '': '' @ exception_str ex)
             (w\<lparr>sent := sent w @ [\<lparr>call_method = method, call_url = base_url self @ endpoint, call_kwargs = kwargs\<rparr>]\<rparr>)
      else w\<lparr>sent := sent w @ [\<lparr>call_method = method, call_url = base_url self @ endpoint, call_kwargs = kwargs\<rparr>]\<rparr>)"
  using assms by (cases ex) (simp_all add: request_cases try_body_ok_status logged_message_def)

text \<open>
  Claim C7, witness: a 200 answer with an HTML body.
\<close>

theorem request_decode_failure_propagates_witness:
  "request demo_loads demo_render (respond 200 ''OK'' ''<html>'') demo_client
      ''GET'' ''/inventory'' no_kwargs fresh =
   (Inl (RequestException ''JSONDecodeError'' ''Expecting value: line 1 column 1 (char 0)''),
    \<lparr>stdout = [''API Request failed for /inventory: Expecting value: line 1 column 1 (char 0)''],
       sent = [\<lparr>call_method = ''GET'', call_url = ''https://example.test/api/inventory'',
                  call_kwargs = no_kwargs\<rparr>]\<rparr>)"
  using request_decode_failure_propagates [of "respond 200 ''OK'' ''<html>''" "''GET''" demo_client
      "''/inventory''" no_kwargs
      "\<lparr>status_code = 200, reason = ''OK'', text = ''<html>'',
             url = ''https://example.test/api/inventory''\<rparr>"
      demo_loads "RequestException ''JSONDecodeError'' ''Expecting value: line 1 column 1 (char 0)''"
      demo_render fresh]
  by (simp add: respond_def demo_client_def demo_loads_def not_found_body_def fresh_def print_def)

text \<open>
  Claim C7, as stated, fails: for a 200 answer with an HTML body the error that reaches
  the caller is not an \<^verbatim>\<open>HTTPError\<close>, and its message is the parser's, not a generic one.
\<close>

theorem request_decode_failure_is_not_http_error:
  "map_option is_HTTPError (signaled (request demo_loads demo_render
      (respond 200 ''OK'' ''<html>'') demo_client ''GET'' ''/cart-items'' no_kwargs fresh)) = Some False
   \<and> map_option exception_str (signaled (request demo_loads demo_render
      (respond 200 ''OK'' ''<html>'') demo_client ''GET'' ''/cart-items'' no_kwargs fresh)) =
       Some ''Expecting value: line 1 column 1 (char 0)''"
  by (simp add: signaled_def request_cases respond_def demo_client_def try_body_ok_status
      demo_loads_def not_found_body_def)

text \<open>
  Claim C8. \<^verbatim>\<open>get\<close>, \<^verbatim>\<open>post\<close>, \<^verbatim>\<open>put\<close> and \<^verbatim>\<open>delete\<close> return what \<^verbatim>\<open>request\<close> returns
  with the method fixed and the other arguments passed on. The call each of them makes on
  the session shows that only \<^verbatim>\<open>post\<close> and \<^verbatim>\<open>put\<close> pass a \<^verbatim>\<open>json\<close> body.
\<close>

theorem wrappers_forward_to_request:
  "get loads render net self endpoint params w =
     request loads render net self ''GET'' endpoint \<lparr>kw_params = params, kw_json = None\<rparr> w
   \<and> post loads render net self endpoint data w =
     request loads render net self ''POST'' endpoint \<lparr>kw_params = None, kw_json = data\<rparr> w
   \<and> put loads render net self endpoint data w =
     request loads render net self ''PUT'' endpoint \<lparr>kw_params = None, kw_json = data\<rparr> w
   \<and> delete loads render net self endpoint w =
     request loads render net self ''DELETE'' endpoint \<lparr>kw_params = None, kw_json = None\<rparr> w
   \<and> sent (snd (get loads render net self endpoint params w)) =
     sent w @ [\<lparr>call_method = ''GET'', call_url = base_url self @ endpoint,
                 call_kwargs = \<lparr>kw_params = params, kw_json = None\<rparr>\<rparr>]
   \<and> sent (snd (post loads render net self endpoint data w)) =
     sent w @ [\<lparr>call_method = ''POST'', call_url = base_url self @ endpoint,
                 call_kwargs = \<lparr>kw_params = None, kw_json = data\<rparr>\<rparr>]
   \<and> sent (snd (put loads render net self endpoint data w)) =
     sent w @ [\<lparr>call_method = ''PUT'', call_url = base_url self @ endpoint,
                 call_kwargs = \<lparr>kw_params = None, kw_json = data\<rparr>\<rparr>]
   \<and> sent (snd (delete loads render net self endpoint w)) =
     sent w @ [\<lparr>call_method = ''DELETE'', call_url = base_url self @ endpoint,
                 call_kwargs = \<lparr>kw_params = None, kw_json = None\<rparr>\<rparr>]"
  by (simp add: get_def post_def put_def delete_def no_kwargs_def sent_request)

section \<open>Properties of the price calculation\<close>















section \<open>Properties of the query string\<close>

lemma hex_digits_table:
  "list_all (\<lambda>m. hex_value (hex_digit m) = Some m \<and> unreserved (hex_digit m)) [0..<16]"
  by code_simp

lemma hex_value_hex_digit: "n < 16 \<Longrightarrow> hex_value (hex_digit n) = Some n"
  using hex_digits_table by (simp add: list_all_iff)

lemma hex_digit_unreserved: "n < 16 \<Longrightarrow> unreserved (hex_digit n)"
  using hex_digits_table by (simp add: list_all_iff)

lemma unreserved_not_special:
  "unreserved c \<Longrightarrow> c \<noteq> CHR ''+'' \<and> c \<noteq> CHR ''%'' \<and> c \<noteq> CHR ''&'' \<and> c \<noteq> CHR ''=''"
  by (auto simp add: unreserved_def)

lemma char_of_hex_pair: "char_of (16 * (of_char c div 16) + of_char c mod (16::nat)) = c"
  by simp

lemma of_char_div_16: "(of_char c :: nat) div 16 < 16"
proof -
  have "(of_char c :: nat) < 256" by (rule nat_of_char_less_256)
  then show ?thesis by arith
qed

lemma unquote_plus_quote_char: "unquote_plus (quote_char c @ r) = c # unquote_plus r"
proof (cases "unreserved c")
  case True
  then show ?thesis using unreserved_not_special [of c] by (simp add: quote_char_def)
next
  case False
  show ?thesis
  proof (cases "c = CHR '' ''")
    case True
    with False show ?thesis by (simp add: quote_char_def)
  next
    case sp: False
    have "hex_value (hex_digit (of_char c div 16)) = Some (of_char c div 16)"
      by (rule hex_value_hex_digit) (rule of_char_div_16)
    moreover have "hex_value (hex_digit (of_char c mod 16)) = Some (of_char c mod 16)"
      by (rule hex_value_hex_digit) simp
    ultimately show ?thesis using False sp
      by (simp add: quote_char_def char_of_hex_pair)
  qed
qed

lemma unquote_plus_quote_plus: "unquote_plus (quote_plus s @ r) = s @ unquote_plus r"
  by (induction s) (simp_all add: quote_plus_def unquote_plus_quote_char)

lemma unquote_plus_quote_plus_all: "unquote_plus (quote_plus s) = s"
  using unquote_plus_quote_plus [of s "[]"] by simp

lemma quote_char_chars:
  "x \<in> set (quote_char c) \<Longrightarrow> unreserved x \<or> x = CHR ''+'' \<or> x = CHR ''%''"
  using hex_digit_unreserved [OF of_char_div_16, of c]
    hex_digit_unreserved [of "of_char c mod 16"]
  by (auto simp add: quote_char_def split: if_splits)

lemma quote_plus_chars:
  "x \<in> set (quote_plus s) \<Longrightarrow> x \<noteq> CHR ''&'' \<and> x \<noteq> CHR ''=''"
  using unreserved_not_special [of x]
  by (auto simp add: quote_plus_def dest!: quote_char_chars)

lemma split_first_at:
  "c \<notin> set a \<Longrightarrow> split_first c (a @ c # b) = Some (a, b)"
  by (induction a) auto

lemma split_on_at:
  "c \<notin> set a \<Longrightarrow> split_on c (a @ c # b) = a # split_on c b"
  by (induction a) auto

lemma split_on_none:
  "c \<notin> set a \<Longrightarrow> split_on c a = [a]"
  by (induction a) auto

lemma split_on_join_cons:
  "\<forall>p \<in> set (x # ps). c \<notin> set p \<Longrightarrow> split_on c (join [c] (x # ps)) = x # ps"
proof (induction ps arbitrary: x)
  case Nil
  then show ?case by (simp add: split_on_none)
next
  case (Cons y ps)
  then have "split_on c (join [c] (y # ps)) = y # ps" by simp
  with Cons.prems show ?case by (simp add: split_on_at)
qed

lemma parse_pair_encoded:
  "parse_pair (quote_plus k @ CHR ''='' # quote_plus v) = [(k, v)]"
proof -
  have "CHR ''='' \<notin> set (quote_plus k)" using quote_plus_chars by blast
  then have "split_first CHR ''='' (quote_plus k @ CHR ''='' # quote_plus v)
               = Some (quote_plus k, quote_plus v)"
    by (rule split_first_at)
  then show ?thesis by (simp add: parse_pair_def unquote_plus_quote_plus_all)
qed

lemma parse_qsl_urlencode: "parse_qsl (urlencode ps) = ps"
proof (cases ps)
  case Nil
  then show ?thesis by (simp add: parse_qsl_def urlencode_def parse_pair_def)
next
  case (Cons p ps')
  let ?enc = "\<lambda>(k, v). quote_plus k @ ''='' @ quote_plus v"
  have "\<forall>s \<in> set (map ?enc ps). CHR ''&'' \<notin> set s"
    using quote_plus_chars by (auto simp add: )
  with Cons have "split_on CHR ''&'' (join ''&'' (map ?enc ps)) = map ?enc ps"
    using split_on_join_cons [of "?enc p" "map ?enc ps'" "CHR ''&''"] by simp
  moreover have "concat (map parse_pair (map ?enc ps)) = ps"
    by (induction ps) (auto simp add: parse_pair_encoded)
  ultimately show ?thesis by (simp add: parse_qsl_def urlencode_def)
qed

lemma add_value_last:
  "k \<notin> fst ` set acc \<Longrightarrow> add_value k v (acc @ [(k, vs)]) = acc @ [(k, vs @ [v])]"
  by (induction acc) auto

lemma add_value_new:
  "k \<notin> fst ` set acc \<Longrightarrow> add_value k v acc = acc @ [(k, [v])]"
  by (induction acc) auto

lemma foldl_add_value_same:
  "k \<notin> fst ` set acc \<Longrightarrow>
   foldl (\<lambda>parsed (name, v). add_value name v parsed) (acc @ [(k, vs)]) (map (Pair k) ws)
     = acc @ [(k, vs @ ws)]"
  by (induction ws arbitrary: vs) (simp_all add: add_value_last)

lemma foldl_add_value_key:
  "k \<notin> fst ` set acc \<Longrightarrow>
   foldl (\<lambda>parsed (name, v). add_value name v parsed) acc (map (Pair k) ws)
     = (if ws = [] then acc else acc @ [(k, ws)])"
proof (cases ws)
  case Nil
  then show ?thesis by simp
next
  case (Cons w ws')
  assume "k \<notin> fst ` set acc"
  then show ?thesis
    using Cons foldl_add_value_same [of k acc "[w]" ws'] by (simp add: add_value_new)
qed

lemma foldl_add_value_query:
  "distinct (map fst q) \<Longrightarrow> fst ` set acc \<inter> fst ` set q = {} \<Longrightarrow>
   foldl (\<lambda>parsed (name, v). add_value name v parsed) acc (to_pairs q) = acc @ as_lists q"
proof (induction q arbitrary: acc)
  case Nil
  then show ?case by (simp add: to_pairs_def as_lists_def)
next
  case (Cons e q)
  obtain k v where e: "e = (k, v)" by (cases e)
  from Cons.prems e have k: "k \<notin> fst ` set acc" by auto
  let ?acc = "if values_of v = [] then acc else acc @ [(k, values_of v)]"
  from Cons.prems e have "distinct (map fst q)" and "fst ` set ?acc \<inter> fst ` set q = {}"
    by (auto simp add: rev_image_eqI)
  then have "foldl (\<lambda>parsed (name, v). add_value name v parsed) ?acc (to_pairs q)
               = ?acc @ as_lists q"
    by (rule Cons.IH)
  moreover have "to_pairs (e # q) = map (Pair k) (values_of v) @ to_pairs q"
    using e by (simp add: to_pairs_def)
  moreover have "as_lists (e # q)
                   = (if values_of v = [] then [] else [(k, values_of v)]) @ as_lists q"
    using e by (simp add: as_lists_def)
  ultimately show ?case
    using foldl_add_value_key [OF k, of "values_of v"] by simp
qed

lemma parse_qs_encode_params:
  "distinct (map fst q) \<Longrightarrow> parse_qs (encode_params q) = as_lists q"
  using foldl_add_value_query [of q "[]"]
  by (simp add: parse_qs_def encode_params_def parse_qsl_urlencode)

lemma split_first_none: "c \<notin> set a \<Longrightarrow> split_first c a = None"
  by (induction a) auto

lemma query_of_prepare_url:
  "CHR ''?'' \<notin> set u \<Longrightarrow> query_of (prepare_url u (Some q)) = encode_params q"
  by (simp add: query_of_def prepare_url_def split_first_none split_first_at)

lemma last_sent_get:
  "last (sent (snd (get loads render net self endpoint params w))) =
     \<lparr>call_method = ''GET'', call_url = base_url self @ endpoint,
        call_kwargs = \<lparr>kw_params = params, kw_json = None\<rparr>\<rparr>"
  by (simp add: get_def sent_request)

text \<open>
  Claim C9, as amended. \<^verbatim>\<open>get\<close> passes the parameter mapping on unchanged. For a mapping
  with distinct keys whose scalars are texts, and a base URL and endpoint without \<^verbatim>\<open>?\<close>,
  the query string of the URL built for the call is the sequence of encoded
  \<^verbatim>\<open>key=value\<close> pairs, one for each scalar and one for each element of a list under the
  repeated key. Decoding it, blank values kept, gives back these pairs, and grouped by
  key the mapping itself with every scalar read as a one-element list and every entry
  with an empty list left out.
\<close>

theorem query_parameters_round_trip:
  assumes "distinct (map fst q)" and "CHR ''?'' \<notin> set (base_url self @ endpoint)"
  shows "kw_params (call_kwargs (last (sent (snd (get loads render net self endpoint (Some q) w)))))
           = Some q
       \<and> query_of (built_url (last (sent (snd (get loads render net self endpoint (Some q) w)))))
           = join ''&'' (map (\<lambda>(k, v). quote_plus k @ ''='' @ quote_plus v) (to_pairs q))
       \<and> parse_qsl (query_of (built_url (last (sent (snd (get loads render net self endpoint (Some q) w))))))
           = to_pairs q
       \<and> parse_qs (query_of (built_url (last (sent (snd (get loads render net self endpoint (Some q) w))))))
           = as_lists q"
proof -
  have "query_of (built_url (last (sent (snd (get loads render net self endpoint (Some q) w)))))
          = encode_params q"
    using assms(2) by (simp add: last_sent_get built_url_def query_of_prepare_url)
  then show ?thesis
    using parse_qs_encode_params [OF assms(1)] parse_qsl_urlencode [of "to_pairs q"]
    by (simp add: encode_params_def urlencode_def last_sent_get)
qed

lemma multi_category_encoded:
  "encode_params multi_category = ''q=&category=T-Shirts&category=Polos&sort=price_asc&limit=10''"
  by code_simp

text \<open>
  Claim C9, witness: the search with the categories \<^verbatim>\<open>T-Shirts\<close> and \<^verbatim>\<open>Polos\<close>, which
  are sent as \<^verbatim>\<open>category=T-Shirts&category=Polos\<close>.
\<close>

theorem query_parameters_round_trip_witness:
  "query_of (built_url (last (sent (snd (get demo_loads demo_render (respond 200 ''OK'' [])
       demo_client ''/products/search'' (Some multi_category) fresh)))))
     = ''q=&category=T-Shirts&category=Polos&sort=price_asc&limit=10''
   \<and> parse_qs (query_of (built_url (last (sent (snd (get demo_loads demo_render
       (respond 200 ''OK'' []) demo_client ''/products/search'' (Some multi_category) fresh))))))
     = [(''q'', [[]]), (''category'', [''T-Shirts'', ''Polos'']),
        (''sort'', [''price_asc'']), (''limit'', [''10''])]"
proof -
  have d: "distinct (map fst multi_category)" by (simp add: multi_category_def)
  have u: "CHR ''?'' \<notin> set (base_url demo_client @ ''/products/search'')"
    by (simp add: demo_client_def)
  have e: "join ''&'' (map (\<lambda>(k, v). quote_plus k @ ''='' @ quote_plus v) (to_pairs multi_category))
             = ''q=&category=T-Shirts&category=Polos&sort=price_asc&limit=10''"
    using multi_category_encoded by (simp add: encode_params_def urlencode_def)
  have l: "as_lists multi_category =
             [(''q'', [[]]), (''category'', [''T-Shirts'', ''Polos'']),
              (''sort'', [''price_asc'']), (''limit'', [''10''])]"
    by (simp add: as_lists_def multi_category_def)
  from query_parameters_round_trip
    [OF d u, of demo_loads demo_render "respond 200 ''OK'' []" fresh, unfolded e l]
  show ?thesis by blast
qed

text \<open>
  Claim C9, as stated, fails: two different mappings, each with a list-valued entry,
  are built into the same URL, so that no decoding of the URL recovers both. The
  decoding into lists returns the first of them for the second.
\<close>

theorem query_encoding_loses_scalar_or_list:
  "prepare_url ''https://example.test/api/products/search''
       (Some [(''category'', QList [''A'', ''B'']), (''q'', QList [''polo''])])
     = prepare_url ''https://example.test/api/products/search''
       (Some [(''category'', QList [''A'', ''B'']), (''q'', QScalar ''polo'')])
   \<and> [(''category'', QList [''A'', ''B'']), (''q'', QList [''polo''])]
       \<noteq> [(''category'', QList [''A'', ''B'']), (''q'', QScalar ''polo'')]
   \<and> parse_qs (query_of (prepare_url ''https://example.test/api/products/search''
       (Some [(''category'', QList [''A'', ''B'']), (''q'', QScalar ''polo'')])))
     = [(''category'', [''A'', ''B'']), (''q'', [''polo''])]"
proof -
  have "parse_qs (encode_params [(''category'', QList [''A'', ''B'']), (''q'', QScalar ''polo'')])
          = as_lists [(''category'', QList [''A'', ''B'']), (''q'', QScalar ''polo'')]"
    by (rule parse_qs_encode_params) simp
  then show ?thesis
    by (simp add: query_of_prepare_url as_lists_def)
      (simp add: prepare_url_def encode_params_def to_pairs_def)
qed

end
